theory Spec2Isabelle
  imports Main "HOL-Library.Word"
begin

unbundle bit_operations_syntax

section \<open>Machine types and simulator state\<close>

text \<open>
  The simulator of \<^verbatim>\<open>z16sim.cpp\<close> works on \<^verbatim>\<open>uint8_t\<close> and \<^verbatim>\<open>uint16_t\<close> values.
  Every C operator first promotes them to \<^verbatim>\<open>int\<close> (taken as 32 bits wide) and an
  assignment narrows the result again, so each expression below is written with the
  promotion (\<open>ucast\<close> to 32 bits) and the narrowing (\<open>ucast\<close> back) it has in C.
\<close>

type_synonym uint8_t = "8 word"
type_synonym uint16_t = "16 word"
type_synonym c_int = "32 word"

definition MEM_SIZE :: nat where
  "MEM_SIZE = 65536"

text \<open>
  The globals \<^verbatim>\<open>memory\<close>, \<^verbatim>\<open>regs\<close> and \<^verbatim>\<open>pc\<close>, the text written to standard
  output so far, and the local array \<^verbatim>\<open>disasmBuf\<close> of \<^verbatim>\<open>main\<close>. The array
  \<^verbatim>\<open>memory\<close> is given by its contents at each index; an access is checked against
  \<open>MEM_SIZE\<close> where it is made (\<open>mem_read\<close>).
\<close>

record sim_state =
  memory :: "nat \<Rightarrow> uint8_t"
  regs :: "uint16_t list"
  pc :: uint16_t
  stdout :: string
  disasmBuf :: string

definition regNames :: "string list" where
  "regNames = [''t0'', ''ra'', ''sp'', ''s0'', ''s1'', ''t1'', ''a0'', ''a1'']"

definition regName :: "uint8_t \<Rightarrow> string" where
  "regName r = regNames ! unat r"

section \<open>Formatted output\<close>

definition digit_char :: "nat \<Rightarrow> char" where
  "digit_char d = ''0123456789ABCDEF'' ! d"

fun dec_digits :: "nat \<Rightarrow> string" where
  "dec_digits n =
     (if n < 10 then [digit_char n] else dec_digits (n div 10) @ [digit_char (n mod 10)])"

fun hex_digits :: "nat \<Rightarrow> string" where
  "hex_digits n =
     (if n < 16 then [digit_char n] else hex_digits (n div 16) @ [digit_char (n mod 16)])"

declare dec_digits.simps [simp del]
declare hex_digits.simps [simp del]

text \<open>The conversions \<^verbatim>\<open>%i\<close>, \<^verbatim>\<open>%u\<close> (and \<^verbatim>\<open>%zu\<close>), \<^verbatim>\<open>%X\<close> and \<^verbatim>\<open>%0wX\<close>.\<close>

definition fmt_i :: "int \<Rightarrow> string" where
  "fmt_i i = (if i < 0 then CHR ''-'' # dec_digits (nat (- i)) else dec_digits (nat i))"

definition fmt_u :: "nat \<Rightarrow> string" where
  "fmt_u n = dec_digits n"

definition fmt_X :: "nat \<Rightarrow> string" where
  "fmt_X n = hex_digits n"

definition fmt_0X :: "nat \<Rightarrow> nat \<Rightarrow> string" where
  "fmt_0X w n = replicate (w - length (hex_digits n)) CHR ''0'' @ hex_digits n"

text \<open>
  \<^verbatim>\<open>snprintf(buf, bufSize, text)\<close>: at most \<open>bufSize - 1\<close> characters and a
  terminating NUL overwrite the start of the buffer.
\<close>

definition snprintf :: "string \<Rightarrow> nat \<Rightarrow> string \<Rightarrow> string" where
  "snprintf buf bufSize txt =
     (if bufSize = 0 then buf
      else (let written = take (bufSize - 1) txt @ [CHR 0x00]
            in written @ drop (length written) buf))"

section \<open>Bit fields\<close>

text \<open>
  The field extractions of \<^verbatim>\<open>disassemble\<close> and \<^verbatim>\<open>executeInstruction\<close>, each under the
  name of the local variable that holds it. Where the two functions compute the same
  expression the definition is shared; where they differ there is one definition for each.
\<close>

definition opcode_of :: "uint16_t \<Rightarrow> uint8_t" where
  "opcode_of inst = ucast ((ucast inst :: c_int) AND 0x7)"

definition funct4 :: "uint16_t \<Rightarrow> uint8_t" where
  "funct4 inst = ucast (drop_bit 12 (ucast inst :: c_int) AND 0xF)"

definition rs2 :: "uint16_t \<Rightarrow> uint8_t" where
  "rs2 inst = ucast (drop_bit 9 (ucast inst :: c_int) AND 0x7)"

definition rd_rs1 :: "uint16_t \<Rightarrow> uint8_t" where
  "rd_rs1 inst = ucast (drop_bit 6 (ucast inst :: c_int) AND 0x7)"

definition funct3 :: "uint16_t \<Rightarrow> uint8_t" where
  "funct3 inst = ucast (drop_bit 3 (ucast inst :: c_int) AND 0x7)"

text \<open>Line 94, in \<^verbatim>\<open>disassemble\<close>: \<^verbatim>\<open>uint8_t imm7 = (inst >> 9) & 0xF;\<close>\<close>

definition disasm_imm7 :: "uint16_t \<Rightarrow> uint8_t" where
  "disasm_imm7 inst = ucast (drop_bit 9 (ucast inst :: c_int) AND 0xF)"

text \<open>Line 246, in \<^verbatim>\<open>executeInstruction\<close>: \<^verbatim>\<open>uint8_t imm7 = (inst >> 9) & 0x7F;\<close>\<close>

definition exec_imm7 :: "uint16_t \<Rightarrow> uint8_t" where
  "exec_imm7 inst = ucast (drop_bit 9 (ucast inst :: c_int) AND 0x7F)"

text \<open>Line 249: \<^verbatim>\<open>int16_t simm = (imm7 & 0x40) ? (imm7 | 0xFF80) : imm7;\<close>\<close>

definition exec_simm :: "uint16_t \<Rightarrow> uint16_t" where
  "exec_simm inst =
     (let imm7 = exec_imm7 inst
      in if (ucast imm7 :: c_int) AND 0x40 \<noteq> 0
         then ucast ((ucast imm7 :: c_int) OR 0xFF80)
         else ucast (ucast imm7 :: c_int))"

definition offset_of :: "uint16_t \<Rightarrow> uint8_t" where
  "offset_of inst = ucast (drop_bit 12 (ucast inst :: c_int) AND 0xF)"

definition flag_of :: "uint16_t \<Rightarrow> uint8_t" where
  "flag_of inst = ucast (drop_bit 15 (ucast inst :: c_int) AND 0x1)"

definition imm_low :: "uint16_t \<Rightarrow> uint8_t" where
  "imm_low inst = ucast (drop_bit 3 (ucast inst :: c_int) AND 0x7)"

text \<open>Line 184, J-type: \<^verbatim>\<open>uint8_t imm_high = (inst >> 9) & 0x3F;\<close>\<close>

definition J_imm_high :: "uint16_t \<Rightarrow> uint8_t" where
  "J_imm_high inst = ucast (drop_bit 9 (ucast inst :: c_int) AND 0x3F)"

definition J_imm :: "uint16_t \<Rightarrow> uint16_t" where
  "J_imm inst =
     ucast (push_bit 4 (ucast (J_imm_high inst) :: c_int) OR push_bit 1 (ucast (imm_low inst) :: c_int))"

text \<open>Line 198, U-type: \<^verbatim>\<open>uint8_t imm_high = (inst << 9) & 0x3F;\<close>\<close>

definition U_imm_high :: "uint16_t \<Rightarrow> uint8_t" where
  "U_imm_high inst = ucast (push_bit 9 (ucast inst :: c_int) AND 0x3F)"

definition U_imm :: "uint16_t \<Rightarrow> uint16_t" where
  "U_imm inst =
     ucast (push_bit 10 (ucast (U_imm_high inst) :: c_int) OR push_bit 7 (ucast (imm_low inst) :: c_int))"

text \<open>Lines 210 and 270: \<^verbatim>\<open>uint8_t svc = (inst >> 6) & 0x1FF;\<close>\<close>

definition svc_of :: "uint16_t \<Rightarrow> uint8_t" where
  "svc_of inst = ucast (drop_bit 6 (ucast inst :: c_int) AND 0x1FF)"

section \<open>The disassembler\<close>

text \<open>The text each \<^verbatim>\<open>case\<close> of the \<^verbatim>\<open>switch\<close> in \<^verbatim>\<open>disassemble\<close> prints.\<close>

definition disasm_R :: "uint16_t \<Rightarrow> string" where
  "disasm_R inst =
     (let f4 = funct4 inst; r2 = regName (rs2 inst); r1 = regName (rd_rs1 inst); f3 = funct3 inst
      in if f4 = 0x0 \<and> f3 = 0x0 then ''add '' @ r1 @ '', '' @ r2
         else if f4 = 0x1 \<and> f3 = 0x0 then ''sub '' @ r1 @ '', '' @ r2
         else if f4 = 0x2 \<and> f3 = 0x1 then ''slt '' @ r1 @ '', '' @ r2
         else if f4 = 0x3 \<and> f3 = 0x2 then ''sltu '' @ r1 @ '', '' @ r2
         else if f4 = 0x4 \<and> f3 = 0x3 then ''sll '' @ r1 @ '', '' @ r2
         else if f4 = 0x5 \<and> f3 = 0x3 then ''srl '' @ r1 @ '', '' @ r2
         else if f4 = 0x6 \<and> f3 = 0x3 then ''sra '' @ r1 @ '', '' @ r2
         else if f4 = 0x7 \<and> f3 = 0x4 then ''or '' @ r1 @ '', '' @ r2
         else if f4 = 0x8 \<and> f3 = 0x5 then ''and '' @ r1 @ '', '' @ r2
         else if f4 = 0x9 \<and> f3 = 0x6 then ''xor '' @ r1 @ '', '' @ r2
         else if f4 = 0xA \<and> f3 = 0x7 then ''mv '' @ r1 @ '', '' @ r2
         else if f4 = 0xB \<and> f3 = 0x0 then ''jr '' @ r1
         else if f4 = 0xC \<and> f3 = 0x0 then ''jalr '' @ r1 @ '', '' @ r2
         else [])"

definition disasm_I :: "uint16_t \<Rightarrow> string" where
  "disasm_I inst =
     (let imm7 = disasm_imm7 inst; r1 = regName (rd_rs1 inst); f3 = funct3 inst
      in if f3 = 0x0 then ''addi '' @ r1 @ '', '' @ fmt_i (uint imm7)
         else if f3 = 0x1 then ''slti '' @ r1 @ '', '' @ fmt_i (uint imm7)
         else if f3 = 0x2 then ''sltui '' @ r1 @ '', '' @ fmt_i (uint imm7)
         else if f3 = 0x3 then
           (let shamt_mode = (ucast (drop_bit 4 (ucast imm7 :: c_int) AND 0x7) :: uint8_t);
                shamt = (ucast ((ucast imm7 :: c_int) AND 0xF) :: uint8_t)
            in if shamt_mode = 0x1 then ''slli '' @ r1 @ '', '' @ fmt_u (unat shamt)
               else if shamt_mode = 0x2 then ''srli '' @ r1 @ '', '' @ fmt_u (unat shamt)
               else if shamt_mode = 0x4 then ''srai '' @ r1 @ '', '' @ fmt_u (unat shamt)
               else ''unknown shift '' @ r1 @ '', imm=0x'' @ fmt_0X 2 (unat imm7))
         else if f3 = 0x4 then ''ori '' @ r1 @ '', '' @ fmt_i (uint imm7)
         else if f3 = 0x5 then ''andi '' @ r1 @ '', '' @ fmt_i (uint imm7)
         else if f3 = 0x6 then ''xori '' @ r1 @ '', '' @ fmt_i (uint imm7)
         else if f3 = 0x7 then ''li '' @ r1 @ '', '' @ fmt_i (uint imm7)
         else [])"

definition disasm_B :: "uint16_t \<Rightarrow> string" where
  "disasm_B inst =
     (let off = fmt_i (uint (offset_of inst)); r2 = regName (rs2 inst);
          r1 = regName (rd_rs1 inst); f3 = funct3 inst
      in if f3 = 0x0 then ''beq '' @ r1 @ '', '' @ r2 @ '', '' @ off
         else if f3 = 0x1 then ''bne '' @ r1 @ '', '' @ r2 @ '', '' @ off
         else if f3 = 0x2 then ''bz '' @ r1 @ '', '' @ off
         else if f3 = 0x3 then ''bnz '' @ r1 @ '', '' @ off
         else if f3 = 0x4 then ''blt '' @ r1 @ '', '' @ r2 @ '', '' @ off
         else if f3 = 0x5 then ''bge '' @ r1 @ '', '' @ r2 @ '', '' @ off
         else if f3 = 0x6 then ''bltu '' @ r1 @ '', '' @ r2 @ '', '' @ off
         else if f3 = 0x7 then ''bgeu '' @ r1 @ '', '' @ r2 @ '', '' @ off
         else [])"

definition disasm_S :: "uint16_t \<Rightarrow> string" where
  "disasm_S inst =
     (let off = fmt_i (uint (offset_of inst)); r2 = regName (rs2 inst);
          r1 = regName (rd_rs1 inst); f3 = funct3 inst
      in if f3 = 0x0 then ''sb '' @ r1 @ '', '' @ off @ ''('' @ r2 @ '')''
         else if f3 = 0x1 then ''sw '' @ r1 @ '', '' @ off @ ''('' @ r2 @ '')''
         else [])"

definition disasm_L :: "uint16_t \<Rightarrow> string" where
  "disasm_L inst =
     (let off = fmt_i (uint (offset_of inst)); r2 = regName (rs2 inst);
          rd = regName (rd_rs1 inst); f3 = funct3 inst
      in if f3 = 0x0 then ''lb '' @ rd @ '', '' @ off @ ''('' @ r2 @ '')''
         else if f3 = 0x1 then ''lw '' @ rd @ '', '' @ off @ ''('' @ r2 @ '')''
         else if f3 = 0x4 then ''lbu '' @ rd @ '', '' @ off @ ''('' @ r2 @ '')''
         else [])"

definition disasm_J :: "uint16_t \<Rightarrow> string" where
  "disasm_J inst =
     (let flag = flag_of inst; rd = regName (rd_rs1 inst); imm = J_imm inst
      in if flag = 0x0 then ''j '' @ fmt_i (uint imm)
         else if flag = 0x1 then ''jal '' @ rd @ '', '' @ fmt_i (uint imm)
         else [])"

definition disasm_U :: "uint16_t \<Rightarrow> string" where
  "disasm_U inst =
     (let flag = flag_of inst; rd = regName (rd_rs1 inst); imm = U_imm inst
      in if flag = 0x0 then ''lui '' @ rd @ '', '' @ fmt_i (uint imm)
         else if flag = 0x1 then ''auipc '' @ rd @ '', '' @ fmt_i (uint imm)
         else [])"

definition disasm_SYS :: "uint16_t \<Rightarrow> string" where
  "disasm_SYS inst = ''ecall '' @ fmt_i (uint (svc_of inst))"

text \<open>
  \<^verbatim>\<open>disassemble(inst, pc, buf, bufSize)\<close> returns the text it prints and the
  contents of \<^verbatim>\<open>buf\<close> afterwards. Only the \<^verbatim>\<open>default\<close> branch writes to the buffer.
\<close>

definition disassemble :: "uint16_t \<Rightarrow> uint16_t \<Rightarrow> string \<Rightarrow> nat \<Rightarrow> string \<times> string" where
  "disassemble inst addr buf bufSize =
     (let opcode = opcode_of inst
      in if opcode = 0x0 then (disasm_R inst, buf)
         else if opcode = 0x1 then (disasm_I inst, buf)
         else if opcode = 0x2 then (disasm_B inst, buf)
         else if opcode = 0x3 then (disasm_S inst, buf)
         else if opcode = 0x4 then (disasm_L inst, buf)
         else if opcode = 0x5 then (disasm_J inst, buf)
         else if opcode = 0x6 then (disasm_U inst, buf)
         else if opcode = 0x7 then (disasm_SYS inst, buf)
         else ([], snprintf buf bufSize ''Unknown opcode''))"

section \<open>The executor\<close>

text \<open>
  A \<^verbatim>\<open>case\<close> of the \<^verbatim>\<open>switch\<close> in \<^verbatim>\<open>executeInstruction\<close> either leaves the
  \<^verbatim>\<open>switch\<close> by \<^verbatim>\<open>break\<close> or leaves the function by \<^verbatim>\<open>return\<close>.
\<close>

datatype switch_exit = Break sim_state | Return int sim_state

text \<open>
  Lines 232 to 244. The operands are promoted to \<^verbatim>\<open>int\<close>, added or subtracted there,
  and the result is narrowed to 16 bits by the assignment.
\<close>

definition exec_R :: "uint16_t \<Rightarrow> sim_state \<Rightarrow> switch_exit" where
  "exec_R inst s =
     (let f4 = funct4 inst; r2 = unat (rs2 inst); r1 = unat (rd_rs1 inst); f3 = funct3 inst
      in if f4 = 0x0 \<and> f3 = 0x0
         then Break (s\<lparr>regs := (regs s)[r1 :=
                ucast ((ucast (regs s ! r1) :: c_int) + (ucast (regs s ! r2) :: c_int))]\<rparr>)
         else if f4 = 0x1 \<and> f3 = 0x0
         then Break (s\<lparr>regs := (regs s)[r1 :=
                ucast ((ucast (regs s ! r1) :: c_int) - (ucast (regs s ! r2) :: c_int))]\<rparr>)
         else Break s)"

text \<open>Lines 269 to 275. The comparison is made on the promoted \<^verbatim>\<open>uint8_t\<close>.\<close>

definition exec_SYS :: "uint16_t \<Rightarrow> sim_state \<Rightarrow> switch_exit" where
  "exec_SYS inst s =
     (let svc = svc_of inst
      in if (ucast svc :: c_int) = 0x3FF then Return 0 s else Break s)"

text \<open>
  Lines 227 to 284. The I-type case computes \<^verbatim>\<open>imm7\<close>, \<^verbatim>\<open>rd_rs1\<close>, \<^verbatim>\<open>funct3\<close> and
  \<^verbatim>\<open>simm\<close> and uses none of them; the cases 2, 3, 5 and 6 are empty; there is no case 4.
\<close>

definition executeInstruction :: "uint16_t \<Rightarrow> sim_state \<Rightarrow> int \<times> sim_state" where
  "executeInstruction inst s =
     (let opcode = opcode_of inst;
          pcUpdated = False;
          sw = (if opcode = 0x0 then exec_R inst s
                else if opcode = 0x1 then
                  (let imm7 = exec_imm7 inst; r1 = rd_rs1 inst; f3 = funct3 inst;
                       simm = exec_simm inst
                   in Break s)
                else if opcode = 0x2 then Break s
                else if opcode = 0x3 then Break s
                else if opcode = 0x5 then Break s
                else if opcode = 0x6 then Break s
                else if opcode = 0x7 then exec_SYS inst s
                else Break (s\<lparr>stdout := stdout s @ ''Unknown instruction opcode 0x''
                                  @ fmt_X (unat opcode) @ [CHR 0x0A]\<rparr>))
      in case sw of
           Return r s' \<Rightarrow> (r, s')
         | Break s' \<Rightarrow>
             (1, if \<not> pcUpdated
                 then s'\<lparr>pc := ucast ((ucast (pc s') :: c_int) + 2)\<rparr>
                 else s'))"

section \<open>Loading and the fetch-execute loop\<close>

text \<open>
  \<^verbatim>\<open>loadMemoryFromFile\<close>, given the bytes of the file: \<^verbatim>\<open>fread\<close> copies at most
  \<open>MEM_SIZE\<close> of them to the start of \<^verbatim>\<open>memory\<close>.
\<close>

definition loadMemoryFromFile :: "uint8_t list \<Rightarrow> sim_state \<Rightarrow> sim_state" where
  "loadMemoryFromFile file s =
     (let n = min (length file) MEM_SIZE
      in s\<lparr>memory := (\<lambda>i. if i < n then file ! i else memory s i),
           stdout := stdout s @ ''Loaded '' @ fmt_u n @ '' bytes into memory'' @ [CHR 0x0A]\<rparr>)"

text \<open>
  The state when \<^verbatim>\<open>main\<close> starts: the globals are zero, nothing is printed, and the
  local \<^verbatim>\<open>disasmBuf\<close> is not initialised, so its contents \<open>garbage\<close> are arbitrary.
\<close>

definition program_start :: "string \<Rightarrow> sim_state" where
  "program_start garbage =
     \<lparr>memory = (\<lambda>_. 0), regs = replicate 8 0, pc = 0, stdout = [], disasmBuf = garbage\<rparr>"

text \<open>Lines 311 to 313: the state at the first test of the loop condition.\<close>

definition initial_state :: "uint8_t list \<Rightarrow> string \<Rightarrow> sim_state" where
  "initial_state file garbage =
     (let s = loadMemoryFromFile file (program_start garbage)
      in s\<lparr>regs := replicate 8 0, pc := 0\<rparr>)"

text \<open>A read of \<^verbatim>\<open>memory[i]\<close>; \<open>None\<close> when \<open>i\<close> is outside the array.\<close>

definition mem_read :: "sim_state \<Rightarrow> nat \<Rightarrow> uint8_t option" where
  "mem_read s i = (if i < MEM_SIZE then Some (memory s i) else None)"

text \<open>
  One pass through the \<^verbatim>\<open>while\<close> loop of \<^verbatim>\<open>main\<close>, from the test of its condition:
  the loop is left (\<open>Exit\<close>), goes round again (\<open>Continue\<close>), or reads outside
  \<^verbatim>\<open>memory\<close> at the index given (\<open>OutOfBounds\<close>).
\<close>

datatype loop_result = Continue sim_state | Exit sim_state | OutOfBounds nat sim_state

definition loop_iteration :: "sim_state \<Rightarrow> loop_result" where
  "loop_iteration s =
     (if \<not> (ucast (pc s) :: c_int) < 65536 then Exit s
      else case mem_read s (unat (pc s)) of
        None \<Rightarrow> OutOfBounds (unat (pc s)) s
      | Some lo \<Rightarrow>
         (case mem_read s (unat (pc s) + 1) of
            None \<Rightarrow> OutOfBounds (unat (pc s) + 1) s
          | Some hi \<Rightarrow>
             (let inst = (ucast ((ucast lo :: c_int) OR push_bit 8 (ucast hi :: c_int)) :: uint16_t);
                  s1 = s\<lparr>stdout := stdout s @ ''0x'' @ fmt_0X 4 (unat (pc s)) @ '': ''\<rparr>;
                  (txt, buf) = disassemble inst (pc s1) (disasmBuf s1) 128;
                  s2 = s1\<lparr>stdout := stdout s1 @ txt, disasmBuf := buf\<rparr>;
                  s3 = s2\<lparr>stdout := stdout s2 @ [CHR 0x0A]\<rparr>;
                  (r, s4) = executeInstruction inst s3
              in if r = 0 then Exit s4
                 else if (ucast (pc s4) :: c_int) \<ge> 65536 then Exit s4
                 else Continue s4)))"

text \<open>
  The loop, run for at most \<open>n\<close> passes: \<open>Running\<close> when it is still going after
  \<open>n\<close> passes, \<open>Finished\<close> when it has been left (\<^verbatim>\<open>main\<close> returns 0), \<open>Undefined\<close>
  when a pass has read outside \<^verbatim>\<open>memory\<close>.
\<close>

datatype outcome = Running sim_state | Finished sim_state | Undefined nat sim_state

fun main_loop :: "nat \<Rightarrow> sim_state \<Rightarrow> outcome" where
  "main_loop 0 s = Running s"
| "main_loop (Suc n) s =
     (case loop_iteration s of
        Continue s' \<Rightarrow> main_loop n s'
      | Exit s' \<Rightarrow> Finished s'
      | OutOfBounds i s' \<Rightarrow> Undefined i s')"

definition main :: "nat \<Rightarrow> uint8_t list \<Rightarrow> string \<Rightarrow> outcome" where
  "main n file garbage = main_loop n (initial_state file garbage)"

fun outcome_state :: "outcome \<Rightarrow> sim_state" where
  "outcome_state (Running s) = s"
| "outcome_state (Finished s) = s"
| "outcome_state (Undefined i s) = s"

text \<open>The addresses fetched in the first \<open>n\<close> passes of the loop.\<close>

fun fetched :: "nat \<Rightarrow> sim_state \<Rightarrow> uint16_t list" where
  "fetched 0 s = []"
| "fetched (Suc n) s =
     (case loop_iteration s of
        Continue s' \<Rightarrow> pc s # fetched n s'
      | Exit s' \<Rightarrow> (if \<not> (ucast (pc s) :: c_int) < 65536 then [] else [pc s])
      | OutOfBounds i s' \<Rightarrow> [])"

text \<open>
  What a run shows: everything but the contents of \<^verbatim>\<open>disasmBuf\<close>, which is never
  printed.
\<close>

definition visible :: "sim_state \<Rightarrow> sim_state" where
  "visible s = s\<lparr>disasmBuf := []\<rparr>"

fun observable :: "outcome \<Rightarrow> outcome" where
  "observable (Running s) = Running (visible s)"
| "observable (Finished s) = Finished (visible s)"
| "observable (Undefined i s) = Undefined i (visible s)"

section \<open>Promotion and narrowing\<close>

lemma is_down_32_16: "is_down (ucast :: c_int \<Rightarrow> uint16_t)"
  by (simp add: is_down)

lemma narrow_add: "(ucast ((ucast (a :: uint16_t) :: c_int) + ucast (b :: uint16_t)) :: uint16_t) = a + b"
proof -
  have "(ucast a + ucast b :: c_int) = word_of_int (uint a + uint b)"
    by (simp only: ucast_eq of_int_add)
  then have "(ucast (ucast a + ucast b :: c_int) :: uint16_t) = word_of_int (uint a + uint b)"
    by (simp only: ucast_down_wi [OF is_down_32_16])
  then show ?thesis
    by (simp only: of_int_add word_of_int_uint)
qed

lemma narrow_sub: "(ucast ((ucast (a :: uint16_t) :: c_int) - ucast (b :: uint16_t)) :: uint16_t) = a - b"
proof -
  have "(ucast a - ucast b :: c_int) = word_of_int (uint a - uint b)"
    by (simp only: ucast_eq of_int_diff)
  then have "(ucast (ucast a - ucast b :: c_int) :: uint16_t) = word_of_int (uint a - uint b)"
    by (simp only: ucast_down_wi [OF is_down_32_16])
  then show ?thesis
    by (simp only: of_int_diff word_of_int_uint)
qed

lemma narrow_add_2: "(ucast ((ucast (a :: uint16_t) :: c_int) + 2) :: uint16_t) = a + 2"
proof -
  have "(ucast (2 :: uint16_t) :: c_int) = 2" by simp
  then show ?thesis using narrow_add [of a 2] by (simp only:)
qed

text \<open>
  The promoted sum and difference of two \<^verbatim>\<open>uint16_t\<close> values are the exact integers:
  the \<^verbatim>\<open>int\<close> arithmetic of the executor never overflows.
\<close>

lemma signed_take_bit_31_add:
  "0 \<le> x \<Longrightarrow> x < 65536 \<Longrightarrow> 0 \<le> y \<Longrightarrow> y < 65536 \<Longrightarrow> signed_take_bit 31 (x + y) = x + (y :: int)"
  by (rule signed_take_bit_int_eq_self) simp_all

lemma signed_take_bit_31_sub:
  "0 \<le> x \<Longrightarrow> x < 65536 \<Longrightarrow> 0 \<le> y \<Longrightarrow> y < 65536 \<Longrightarrow> signed_take_bit 31 (x - y) = x - (y :: int)"
  by (rule signed_take_bit_int_eq_self) simp_all

lemma uint16_lt: "uint (a :: uint16_t) < 65536"
  using uint_lt2p [of a] by simp

lemma sint_promote16: "sint (ucast (a :: uint16_t) :: c_int) = uint a"
  using signed_take_bit_31_add [of "uint a" 0] uint16_lt [of a]
  by (simp add: signed_ucast_eq)

lemma promoted_add_exact:
  "sint ((ucast (a :: uint16_t) :: c_int) + ucast (b :: uint16_t)) = uint a + uint b"
  using signed_take_bit_31_add [of "uint a" "uint b"] uint16_lt [of a] uint16_lt [of b]
  by (simp add: sint_word_add sint_promote16)

lemma promoted_sub_exact:
  "sint ((ucast (a :: uint16_t) :: c_int) - ucast (b :: uint16_t)) = uint a - uint b"
  using signed_take_bit_31_sub [of "uint a" "uint b"] uint16_lt [of a] uint16_lt [of b]
  by (simp add: sint_word_diff sint_promote16)

lemma unat_promote8: "unat (ucast (v :: uint8_t) :: c_int) = unat v"
  by (simp add: unsigned_ucast_eq take_bit_nat_eq_self unsigned_less [of v, THEN less_trans])

lemma unat_promote16: "unat (ucast (v :: uint16_t) :: c_int) = unat v"
  by (simp add: unsigned_ucast_eq take_bit_nat_eq_self unsigned_less [of v, THEN less_trans])

text \<open>A \<^verbatim>\<open>uint8_t\<close> never compares equal to \<^verbatim>\<open>0x3FF\<close>.\<close>

lemma promoted_uint8_ne_0x3FF: "(ucast (v :: uint8_t) :: c_int) \<noteq> 0x3FF"
proof
  assume "(ucast v :: c_int) = 0x3FF"
  then have "unat (ucast v :: c_int) = 1023" by simp
  then have "unat v = 1023" by (simp only: unat_promote8)
  moreover have "unat v < 2 ^ 8" using unsigned_less [of v] by simp
  ultimately show False by simp
qed

text \<open>A \<^verbatim>\<open>uint16_t\<close> is always below \<^verbatim>\<open>MEM_SIZE\<close>.\<close>

lemma promoted_uint16_lt: "(ucast (p :: uint16_t) :: c_int) < 65536"
proof -
  have "unat p < 2 ^ 16" using unsigned_less [of p] by simp
  then show ?thesis by (simp add: word_less_nat_alt unat_promote16)
qed

lemma promoted_uint16_not_ge: "\<not> 65536 \<le> (ucast (p :: uint16_t) :: c_int)"
  using promoted_uint16_lt [of p] by (simp add: not_le)

lemma even_advance: "even (unat (p + 2 :: uint16_t)) = even (unat p)"
proof -
  have "unat (p + 2) = (unat p + 2) mod 2 ^ 16"
    by (simp add: unat_word_ariths)
  moreover have "even ((unat p + 2) mod 2 ^ 16) = even (unat p + 2)"
    by (rule dvd_mod_iff) simp
  ultimately show ?thesis by simp
qed

lemma replicate_3: "replicate 3 x = [x, x, x]"
  by (simp add: numeral_3_eq_3)

section \<open>Fields\<close>

lemma field_lt_8: "unat (ucast ((x :: c_int) AND 0x7) :: uint8_t) < 8"
proof -
  have "x AND 7 \<le> 7" by (rule word_and_le1)
  then have "unat (x AND 7) \<le> 7" by (simp add: word_le_nat_alt)
  then show ?thesis by (simp add: unsigned_ucast_eq take_bit_nat_eq_self)
qed

lemma opcode_cases: "opcode_of inst \<in> {0, 1, 2, 3, 4, 5, 6, 7}"
proof -
  have "unat (opcode_of inst) < 8" unfolding opcode_of_def by (rule field_lt_8)
  then have "unat (opcode_of inst) \<in> {0, 1, 2, 3, 4, 5, 6, 7}" by auto
  then show ?thesis by (auto simp: word_unat_eq_iff)
qed

lemma rd_rs1_lt_8: "unat (rd_rs1 inst) < 8"
  unfolding rd_rs1_def by (rule field_lt_8)

text \<open>The left shift of line 198 leaves nothing under the mask \<^verbatim>\<open>0x3F\<close>.\<close>

lemma U_imm_high_zero: "U_imm_high inst = 0"
  unfolding U_imm_high_def
  by (rule bit_word_eqI) (auto simp add: bit_simps)

section \<open>What the disassembler and the executor do to the state\<close>

text \<open>The \<^verbatim>\<open>default\<close> branch of \<^verbatim>\<open>disassemble\<close> is never taken: the buffer is left alone.\<close>

lemma disassemble_buf: "snd (disassemble inst a buf n) = buf"
  using opcode_cases [of inst] by (auto simp add: disassemble_def Let_def)

lemma disassemble_text: "fst (disassemble inst a buf n) = fst (disassemble inst a buf' n')"
  by (simp add: disassemble_def Let_def)

lemma exec_SYS_break: "exec_SYS inst s = Break s"
  by (simp add: exec_SYS_def promoted_uint8_ne_0x3FF)

lemma exec_R_cases:
  "exec_R inst s = Break (s\<lparr>regs :=
     (if funct4 inst = 0 \<and> funct3 inst = 0
      then (regs s)[unat (rd_rs1 inst) := regs s ! unat (rd_rs1 inst) + regs s ! unat (rs2 inst)]
      else if funct4 inst = 1 \<and> funct3 inst = 0
      then (regs s)[unat (rd_rs1 inst) := regs s ! unat (rd_rs1 inst) - regs s ! unat (rs2 inst)]
      else regs s)\<rparr>)"
  by (simp add: exec_R_def Let_def narrow_add narrow_sub)

lemma executeInstruction_continues: "fst (executeInstruction inst s) = 1"
  by (simp add: executeInstruction_def Let_def exec_R_cases exec_SYS_break)

lemma executeInstruction_pc: "pc (snd (executeInstruction inst s)) = pc s + 2"
  by (simp add: executeInstruction_def Let_def exec_R_cases exec_SYS_break narrow_add_2)

lemma executeInstruction_memory: "memory (snd (executeInstruction inst s)) = memory s"
  by (simp add: executeInstruction_def Let_def exec_R_cases exec_SYS_break)

lemma executeInstruction_regs:
  "regs (snd (executeInstruction inst s)) =
     (if opcode_of inst = 0 \<and> funct4 inst = 0 \<and> funct3 inst = 0
      then (regs s)[unat (rd_rs1 inst) := regs s ! unat (rd_rs1 inst) + regs s ! unat (rs2 inst)]
      else if opcode_of inst = 0 \<and> funct4 inst = 1 \<and> funct3 inst = 0
      then (regs s)[unat (rd_rs1 inst) := regs s ! unat (rd_rs1 inst) - regs s ! unat (rs2 inst)]
      else regs s)"
  by (simp add: executeInstruction_def Let_def exec_R_cases exec_SYS_break)

lemma executeInstruction_disasmBuf:
  "executeInstruction inst (s\<lparr>disasmBuf := b, stdout := x\<rparr>) =
     (fst (executeInstruction inst (s\<lparr>stdout := x\<rparr>)),
      (snd (executeInstruction inst (s\<lparr>stdout := x\<rparr>)))\<lparr>disasmBuf := b\<rparr>)"
  by (simp add: executeInstruction_def Let_def exec_R_cases exec_SYS_break)

section \<open>One pass of the loop\<close>

lemma mem_read_pc: "mem_read s (unat (pc s)) = Some (memory s (unat (pc s)))"
  using unsigned_less [of "pc s", where 'a = nat] by (simp add: mem_read_def MEM_SIZE_def)

text \<open>
  Neither \<^verbatim>\<open>break\<close> is ever taken and the loop condition never fails: no pass leaves
  the loop.
\<close>

lemma loop_iteration_never_exits: "loop_iteration s \<noteq> Exit t"
  by (simp add: loop_iteration_def Let_def split_beta mem_read_pc executeInstruction_continues
      promoted_uint16_lt promoted_uint16_not_ge split: option.splits)

lemma loop_iteration_OutOfBounds:
  "loop_iteration s = OutOfBounds i t \<Longrightarrow> t = s \<and> pc s = 0xFFFF"
  apply (simp add: loop_iteration_def Let_def split_beta mem_read_pc executeInstruction_continues
      promoted_uint16_lt promoted_uint16_not_ge split: option.splits)
  apply (simp add: mem_read_def MEM_SIZE_def split: if_splits)
  apply (simp add: word_unat_eq_iff)
  using unsigned_less [of "pc s", where 'a = nat] apply simp
  done

lemma loop_iteration_Continue_pc: "loop_iteration s = Continue t \<Longrightarrow> pc t = pc s + 2"
  by (auto simp add: loop_iteration_def Let_def split_beta mem_read_pc executeInstruction_continues
      executeInstruction_pc promoted_uint16_lt promoted_uint16_not_ge split: option.splits)

lemma loop_iteration_disasmBuf:
  "loop_iteration (s\<lparr>disasmBuf := b\<rparr>) =
     (case loop_iteration s of
        Continue t \<Rightarrow> Continue (t\<lparr>disasmBuf := b\<rparr>)
      | Exit t \<Rightarrow> Exit (t\<lparr>disasmBuf := b\<rparr>)
      | OutOfBounds i t \<Rightarrow> OutOfBounds i (t\<lparr>disasmBuf := b\<rparr>))"
  by (simp add: loop_iteration_def Let_def split_beta mem_read_def executeInstruction_continues
      executeInstruction_disasmBuf disassemble_buf disassemble_text [of _ _ b 128 "disasmBuf s" 128]
      promoted_uint16_lt promoted_uint16_not_ge split: option.splits)

section \<open>Runs\<close>

lemma visible_disasmBuf: "visible (s\<lparr>disasmBuf := b\<rparr>) = visible s"
  by (simp add: visible_def)

lemma main_loop_disasmBuf:
  "observable (main_loop n (s\<lparr>disasmBuf := b\<rparr>)) = observable (main_loop n s)"
proof (induction n arbitrary: s)
  case 0
  show ?case by (simp add: visible_disasmBuf)
next
  case (Suc n)
  show ?case
    by (cases "loop_iteration s") (simp_all add: loop_iteration_disasmBuf Suc.IH visible_disasmBuf)
qed

lemma fetched_disasmBuf: "fetched n (s\<lparr>disasmBuf := b\<rparr>) = fetched n s"
proof (induction n arbitrary: s)
  case 0
  show ?case by simp
next
  case (Suc n)
  show ?case
    by (cases "loop_iteration s") (simp_all add: loop_iteration_disasmBuf Suc.IH)
qed

lemma initial_state_disasmBuf:
  "initial_state img g = (initial_state img [])\<lparr>disasmBuf := g\<rparr>"
  by (simp add: initial_state_def loadMemoryFromFile_def program_start_def Let_def cong: if_cong)

lemma main_loop_pc_even:
  "even (unat (pc s)) \<Longrightarrow> even (unat (pc (outcome_state (main_loop n s))))"
proof (induction n arbitrary: s)
  case 0
  then show ?case by simp
next
  case (Suc n)
  show ?case
  proof (cases "loop_iteration s")
    case (Continue t)
    then have "pc t = pc s + 2" by (rule loop_iteration_Continue_pc)
    then have "even (unat (pc t))" using Suc.prems by (simp add: even_advance)
    then show ?thesis using Continue Suc.IH by simp
  next
    case (Exit t)
    then show ?thesis by (simp add: loop_iteration_never_exits)
  next
    case (OutOfBounds i t)
    then have "t = s" by (simp add: loop_iteration_OutOfBounds)
    then show ?thesis using OutOfBounds Suc.prems by simp
  qed
qed

text \<open>
  From an even \<^verbatim>\<open>pc\<close> the loop is still running after any number of passes: it is
  never left, and the fetch stays inside \<^verbatim>\<open>memory\<close>.
\<close>

lemma main_loop_keeps_running:
  "even (unat (pc s)) \<Longrightarrow> \<exists>t. main_loop n s = Running t"
proof (induction n arbitrary: s)
  case 0
  show ?case by simp
next
  case (Suc n)
  show ?case
  proof (cases "loop_iteration s")
    case (Continue t)
    then have "pc t = pc s + 2" by (rule loop_iteration_Continue_pc)
    then have "even (unat (pc t))" using Suc.prems by (simp add: even_advance)
    then show ?thesis using Continue Suc.IH by simp
  next
    case (Exit t)
    then show ?thesis by (simp add: loop_iteration_never_exits)
  next
    case (OutOfBounds i t)
    then have "pc s = 0xFFFF" by (simp add: loop_iteration_OutOfBounds)
    then show ?thesis using Suc.prems by simp
  qed
qed

lemma main_never_returns: "\<exists>t. main n img garbage = Running t"
  unfolding main_def by (rule main_loop_keeps_running) (simp add: initial_state_def)





section \<open>The system call that should stop the simulation\<close>

text \<open>
  C1. The claim: a System instruction (opcode 7) whose service number is 3 makes
  \<^verbatim>\<open>executeInstruction\<close> return the stop signal 0 without advancing \<^verbatim>\<open>pc\<close>, and the
  loop of \<^verbatim>\<open>main\<close> then ends.

  What the code does on the word \<^verbatim>\<open>0x00C7\<close> (\<^verbatim>\<open>ecall 3\<close>): \<^verbatim>\<open>svc\<close> is 3, the test
  \<^verbatim>\<open>svc == 0x3FF\<close> fails, \<^verbatim>\<open>executeInstruction\<close> returns 1 and \<^verbatim>\<open>pc\<close> is advanced
  by 2. On the two-byte image holding that word the first pass prints the instruction
  and leaves \<^verbatim>\<open>pc\<close> at 2, and the loop is still running after any number \<open>n\<close> of
  passes.
\<close>

theorem ecall_3_does_not_halt:
  "opcode_of 0x00C7 = 7 \<and> svc_of 0x00C7 = 3
   \<and> executeInstruction 0x00C7 s = (1, s\<lparr>pc := pc s + 2\<rparr>)
   \<and> stdout (outcome_state (main (Suc 0) [0xC7, 0x00] g))
       = ''Loaded 2 bytes into memory'' @ [CHR 0x0A] @ ''0x0000: ecall 3'' @ [CHR 0x0A]
   \<and> pc (outcome_state (main (Suc 0) [0xC7, 0x00] g)) = 2
   \<and> (\<exists>t. main n [0xC7, 0x00] g = Running t)"
proof -
  have "opcode_of 0x00C7 = 7 \<and> svc_of 0x00C7 = 3
      \<and> executeInstruction 0x00C7 s = (1, s\<lparr>pc := pc s + 2\<rparr>)"
    by (simp add: executeInstruction_def Let_def opcode_of_def exec_SYS_def svc_of_def
        narrow_add_2)
  moreover have "stdout (outcome_state (main (Suc 0) [0xC7, 0x00] g))
       = ''Loaded 2 bytes into memory'' @ [CHR 0x0A] @ ''0x0000: ecall 3'' @ [CHR 0x0A]
     \<and> pc (outcome_state (main (Suc 0) [0xC7, 0x00] g)) = 2"
    by (simp add: main_def initial_state_def loadMemoryFromFile_def program_start_def
        loop_iteration_def mem_read_def MEM_SIZE_def Let_def
        disassemble_def opcode_of_def disasm_SYS_def svc_of_def
        executeInstruction_def exec_SYS_def replicate_3
        fmt_u_def fmt_i_def fmt_0X_def dec_digits.simps hex_digits.simps digit_char_def)
  moreover have "\<exists>t. main n [0xC7, 0x00] g = Running t"
    by (rule main_never_returns)
  ultimately show ?thesis by blast
qed

section \<open>The immediate of the I-type\<close>

text \<open>
  C2. The claim: for every word with opcode 1 the disassembler and the executor take the
  immediate from the same 7-bit field \<^verbatim>\<open>[15:9]\<close>, so the value printed for
  addi, slti, sltui, ori, andi, xori and li is the one the executor decodes.

  What the code does on the word \<^verbatim>\<open>0x2039\<close> (li, register t0, field \<^verbatim>\<open>[15:9]\<close> = 16):
  the executor masks with \<^verbatim>\<open>0x7F\<close> and decodes 16; the disassembler masks with
  \<^verbatim>\<open>0xF\<close>, keeps 0 and prints \<^verbatim>\<open>li t0, 0\<close>.
\<close>

theorem imm7_masks_disagree:
  "opcode_of 0x2039 = 1 \<and> funct3 0x2039 = 7
   \<and> exec_imm7 0x2039 = 16 \<and> exec_simm 0x2039 = 16
   \<and> disasm_imm7 0x2039 = 0
   \<and> fst (disassemble 0x2039 a buf 128) = ''li t0, 0''"
  by (simp add: disassemble_def Let_def opcode_of_def disasm_I_def disasm_imm7_def exec_imm7_def
      exec_simm_def rd_rs1_def funct3_def regName_def regNames_def fmt_i_def dec_digits.simps
      digit_char_def)

section \<open>Load immediate\<close>

text \<open>
  C3. The claim: \<^verbatim>\<open>li t0, 5\<close> executed with all registers zero leaves 5 in t0, advances
  \<^verbatim>\<open>pc\<close> by 2 and changes nothing else.

  What the code does on the word \<^verbatim>\<open>0x0A39\<close>, which the disassembler prints as
  \<^verbatim>\<open>li t0, 5\<close>: the I-type case of the executor decodes the fields and stops there, so
  only \<^verbatim>\<open>pc\<close> changes and t0 is still 0.
\<close>

theorem li_t0_5_not_executed:
  "fst (disassemble 0x0A39 a buf 128) = ''li t0, 5''
   \<and> executeInstruction 0x0A39 (s\<lparr>regs := replicate 8 0\<rparr>)
       = (1, s\<lparr>regs := replicate 8 0, pc := pc s + 2\<rparr>)
   \<and> regs (snd (executeInstruction 0x0A39 (s\<lparr>regs := replicate 8 0\<rparr>))) ! 0 = 0"
  by (simp add: disassemble_def executeInstruction_def Let_def opcode_of_def disasm_I_def
      disasm_imm7_def rd_rs1_def funct3_def regName_def regNames_def fmt_i_def dec_digits.simps
      digit_char_def narrow_add_2)

section \<open>The immediate of the U-type\<close>

text \<open>
  C4. The claim: for every word with opcode 6 the field \<^verbatim>\<open>[14:9]\<close> lands in bits
  \<^verbatim>\<open>[15:10]\<close> of the assembled immediate and the field \<^verbatim>\<open>[5:3]\<close> in bits \<^verbatim>\<open>[9:7]\<close>,
  so the value printed for lui and auipc covers every upper-bit pattern.

  What the code does on the word \<^verbatim>\<open>0x0206\<close> (lui, register t0, field \<^verbatim>\<open>[14:9]\<close> = 1,
  which should give 1024): \<^verbatim>\<open>imm_high\<close> is taken from \<^verbatim>\<open>inst << 9\<close>, so it is 0, the
  immediate is 0 and the text is \<^verbatim>\<open>lui t0, 0\<close>.
\<close>

theorem lui_drops_imm_hi:
  "opcode_of 0x0206 = 6 \<and> drop_bit 9 (0x0206 :: uint16_t) AND 0x3F = 1
   \<and> U_imm_high 0x0206 = 0 \<and> U_imm 0x0206 = 0
   \<and> fst (disassemble 0x0206 a buf 128) = ''lui t0, 0''"
  by (simp add: disassemble_def Let_def opcode_of_def disasm_U_def U_imm_def U_imm_high_def
      imm_low_def flag_of_def rd_rs1_def regName_def regNames_def fmt_i_def dec_digits.simps
      digit_char_def)

section \<open>Dispatch on the opcode\<close>

text \<open>
  C5. The claim: in the disassembler and in the executor each of the opcodes 0 to 7 selects
  a case of its own, and the \<^verbatim>\<open>default\<close> branch is unreachable in both.

  What the code does on the word \<^verbatim>\<open>0x0004\<close> (opcode 4, printed by the disassembler as
  \<^verbatim>\<open>lb t0, 0(t0)\<close>): the \<^verbatim>\<open>switch\<close> of the executor has no case 4, so its
  \<^verbatim>\<open>default\<close> branch runs and prints \<^verbatim>\<open>Unknown instruction opcode 0x4\<close>. (That the
  \<^verbatim>\<open>default\<close> branch of the disassembler is never taken is \<open>disassemble_buf\<close>.)
\<close>

theorem executor_default_reached:
  "opcode_of 0x0004 = 4
   \<and> fst (disassemble 0x0004 a buf 128) = ''lb t0, 0(t0)''
   \<and> executeInstruction 0x0004 s
       = (1, s\<lparr>stdout := stdout s @ ''Unknown instruction opcode 0x4'' @ [CHR 0x0A],
              pc := pc s + 2\<rparr>)"
  by (simp add: disassemble_def executeInstruction_def Let_def opcode_of_def disasm_L_def
      offset_of_def rs2_def rd_rs1_def funct3_def regName_def regNames_def fmt_i_def fmt_X_def
      dec_digits.simps hex_digits.simps digit_char_def narrow_add_2)

section \<open>Reaching the end of memory\<close>


section \<open>Addition and subtraction\<close>

text \<open>
  C7. For an R-type word (opcode 0) with \<^verbatim>\<open>funct3\<close> = 0, executed on a register file of
  eight registers: with \<^verbatim>\<open>funct4\<close> = 0 (add) the register \<^verbatim>\<open>rd_rs1\<close> afterwards holds
  the sum of the old values of \<^verbatim>\<open>rd_rs1\<close> and \<^verbatim>\<open>rs2\<close> modulo \<open>2 ^ 16\<close>, and with
  \<^verbatim>\<open>funct4\<close> = 1 (sub) their difference modulo \<open>2 ^ 16\<close>, whatever the values are.
  (The \<^verbatim>\<open>int\<close> arithmetic in between is exact: \<open>promoted_add_exact\<close>,
  \<open>promoted_sub_exact\<close>.)
\<close>

theorem add_sub_wrap_around:
  assumes "length (regs s) = 8" and "opcode_of inst = 0" and "funct3 inst = 0"
  shows "(funct4 inst = 0 \<longrightarrow>
            uint (regs (snd (executeInstruction inst s)) ! unat (rd_rs1 inst))
            = (uint (regs s ! unat (rd_rs1 inst)) + uint (regs s ! unat (rs2 inst))) mod 2 ^ 16)
       \<and> (funct4 inst = 1 \<longrightarrow>
            uint (regs (snd (executeInstruction inst s)) ! unat (rd_rs1 inst))
            = (uint (regs s ! unat (rd_rs1 inst)) - uint (regs s ! unat (rs2 inst))) mod 2 ^ 16)"
proof -
  have "unat (rd_rs1 inst) < length (regs s)"
    using rd_rs1_lt_8 [of inst] assms(1) by simp
  then show ?thesis
    using assms(2,3) by (simp add: executeInstruction_regs uint_word_ariths)
qed

text \<open>
  \<^verbatim>\<open>add t0, ra\<close> (\<^verbatim>\<open>0x0200\<close>) with t0 = 65535 and ra = 2 leaves 1 in t0;
  \<^verbatim>\<open>sub t0, ra\<close> (\<^verbatim>\<open>0x1200\<close>) with t0 = 1 and ra = 2 leaves 65535.
\<close>

theorem add_sub_wrap_around_witness:
  "length (regs ((program_start [])\<lparr>regs := [0xFFFF, 2, 0, 0, 0, 0, 0, 0]\<rparr>)) = 8
   \<and> opcode_of 0x0200 = 0 \<and> funct3 0x0200 = 0 \<and> funct4 0x0200 = 0
   \<and> rd_rs1 0x0200 = 0 \<and> rs2 0x0200 = 1
   \<and> uint (regs (snd (executeInstruction 0x0200
         ((program_start [])\<lparr>regs := [0xFFFF, 2, 0, 0, 0, 0, 0, 0]\<rparr>))) ! 0) = 1
   \<and> opcode_of 0x1200 = 0 \<and> funct3 0x1200 = 0 \<and> funct4 0x1200 = 1
   \<and> rd_rs1 0x1200 = 0 \<and> rs2 0x1200 = 1
   \<and> uint (regs (snd (executeInstruction 0x1200
         ((program_start [])\<lparr>regs := [1, 2, 0, 0, 0, 0, 0, 0]\<rparr>))) ! 0) = 65535"
proof -
  have f: "opcode_of 0x0200 = 0" "funct3 0x0200 = 0" "funct4 0x0200 = 0"
    "rd_rs1 0x0200 = 0" "rs2 0x0200 = 1"
    "opcode_of 0x1200 = 0" "funct3 0x1200 = 0" "funct4 0x1200 = 1"
    "rd_rs1 0x1200 = 0" "rs2 0x1200 = 1"
    by (simp_all add: opcode_of_def funct3_def funct4_def rd_rs1_def rs2_def)
  have l: "length (regs ((program_start [])\<lparr>regs := [0xFFFF, 2, 0, 0, 0, 0, 0, 0]\<rparr>)) = 8"
    "length (regs ((program_start [])\<lparr>regs := [1, 2, 0, 0, 0, 0, 0, 0]\<rparr>)) = 8"
    by simp_all
  show ?thesis
    using add_sub_wrap_around [OF l(1) f(1) f(2)] add_sub_wrap_around [OF l(2) f(6) f(7)] f
    by simp
qed

section \<open>Alignment of the program counter\<close>

text \<open>
  C8. \<^verbatim>\<open>main\<close> starts the loop with \<^verbatim>\<open>pc\<close> = 0 and zeroed registers. Whatever the
  image, after any number \<open>n\<close> of passes of the loop \<^verbatim>\<open>pc\<close> is even.
\<close>

theorem pc_always_even: "even (unat (pc (outcome_state (main n img garbage))))"
  unfolding main_def
  by (rule main_loop_pc_even) (simp add: initial_state_def)

section \<open>Determinism\<close>

text \<open>
  C9. Two runs of \<^verbatim>\<open>main\<close> on the same image can differ only in what the
  uninitialised array \<^verbatim>\<open>disasmBuf\<close> holds when \<^verbatim>\<open>main\<close> starts (\<open>g1\<close> and \<open>g2\<close>).
  Whatever that is, and for every number \<open>n\<close> of passes, the two runs are in the same
  situation (still running, finished, or stopped by a read outside memory) with the same
  memory, registers, \<^verbatim>\<open>pc\<close> and printed text (each line of the trace is the fetched
  address and the disassembled instruction), and they have fetched the same addresses.
\<close>

theorem run_deterministic:
  "observable (main n img g1) = observable (main n img g2)
   \<and> fetched n (initial_state img g1) = fetched n (initial_state img g2)"
proof -
  have a: "observable (main n img g) = observable (main n img [])" for g
    unfolding main_def initial_state_disasmBuf [of img g] by (rule main_loop_disasmBuf)
  have b: "fetched n (initial_state img g) = fetched n (initial_state img [])" for g
    unfolding initial_state_disasmBuf [of img g] by (rule fetched_disasmBuf)
  show ?thesis
    by (simp add: a [of g1] a [of g2] b [of g1] b [of g2])
qed

section \<open>What the executor changes\<close>

text \<open>
  C10. For every word whose opcode is neither 0 nor 7, \<^verbatim>\<open>executeInstruction\<close> leaves the
  registers and the memory as they were and sets \<^verbatim>\<open>pc\<close> to \<^verbatim>\<open>pc + 2\<close>. And for every
  word at all, if the registers are changed then the word is an R-type add or sub and the
  change is the write of the sum or the difference to \<^verbatim>\<open>rd_rs1\<close>.
\<close>

theorem executor_frame:
  "(opcode_of inst \<noteq> 0 \<and> opcode_of inst \<noteq> 7 \<longrightarrow>
      regs (snd (executeInstruction inst s)) = regs s
      \<and> memory (snd (executeInstruction inst s)) = memory s
      \<and> pc (snd (executeInstruction inst s)) = pc s + 2)
   \<and> (regs (snd (executeInstruction inst s)) \<noteq> regs s \<longrightarrow>
        opcode_of inst = 0 \<and> funct3 inst = 0
        \<and> (funct4 inst = 0
             \<and> regs (snd (executeInstruction inst s))
                 = (regs s)[unat (rd_rs1 inst) :=
                      regs s ! unat (rd_rs1 inst) + regs s ! unat (rs2 inst)]
           \<or> funct4 inst = 1
             \<and> regs (snd (executeInstruction inst s))
                 = (regs s)[unat (rd_rs1 inst) :=
                      regs s ! unat (rd_rs1 inst) - regs s ! unat (rs2 inst)]))"
  by (simp add: executeInstruction_regs executeInstruction_memory executeInstruction_pc)

text \<open>
  The word \<^verbatim>\<open>0x0A39\<close> (opcode 1) changes only \<^verbatim>\<open>pc\<close>; \<^verbatim>\<open>add t0, ra\<close> (\<^verbatim>\<open>0x0200\<close>)
  with t0 = 1 and ra = 2 changes the registers, by writing 3 to t0.
\<close>

theorem executor_frame_witness:
  "opcode_of 0x0A39 \<noteq> 0 \<and> opcode_of 0x0A39 \<noteq> 7
   \<and> regs (snd (executeInstruction 0x0A39 (program_start []))) = regs (program_start [])
   \<and> memory (snd (executeInstruction 0x0A39 (program_start []))) = memory (program_start [])
   \<and> pc (snd (executeInstruction 0x0A39 (program_start []))) = 2
   \<and> regs (snd (executeInstruction 0x0200 ((program_start [])\<lparr>regs := [1, 2, 0, 0, 0, 0, 0, 0]\<rparr>)))
       \<noteq> regs ((program_start [])\<lparr>regs := [1, 2, 0, 0, 0, 0, 0, 0]\<rparr>)
   \<and> opcode_of 0x0200 = 0 \<and> funct3 0x0200 = 0 \<and> funct4 0x0200 = 0
   \<and> regs (snd (executeInstruction 0x0200 ((program_start [])\<lparr>regs := [1, 2, 0, 0, 0, 0, 0, 0]\<rparr>)))
       = [3, 2, 0, 0, 0, 0, 0, 0]"
proof -
  let ?s = "(program_start [])\<lparr>regs := [1, 2, 0, 0, 0, 0, 0, 0]\<rparr>"
  have o: "opcode_of 0x0A39 \<noteq> 0 \<and> opcode_of 0x0A39 \<noteq> 7"
    by (simp add: opcode_of_def)
  have f: "funct4 0x0200 = 0" "unat (rd_rs1 0x0200) = 0" "unat (rs2 0x0200) = 1"
    by (simp_all add: funct4_def rd_rs1_def rs2_def)
  have r: "regs (snd (executeInstruction 0x0200 ?s)) \<noteq> regs ?s"
    by (simp add: executeInstruction_def Let_def opcode_of_def exec_R_def funct4_def funct3_def
        rd_rs1_def rs2_def)
  note a = executor_frame [of "0x0A39" "program_start []", THEN conjunct1, rule_format, OF o]
  note b = executor_frame [of "0x0200" ?s, THEN conjunct2, rule_format, OF r]
  have p: "pc (program_start []) + 2 = 2" "regs ?s = [1, 2, 0, 0, 0, 0, 0, 0]"
    by (simp_all add: program_start_def)
  from b have b1: "opcode_of 0x0200 = 0" and b2: "funct3 0x0200 = 0"
    and b3: "funct4 0x0200 = 0
         \<and> regs (snd (executeInstruction 0x0200 ?s))
             = (regs ?s)[unat (rd_rs1 0x0200) :=
                  regs ?s ! unat (rd_rs1 0x0200) + regs ?s ! unat (rs2 0x0200)]
       \<or> funct4 0x0200 = 1
         \<and> regs (snd (executeInstruction 0x0200 ?s))
             = (regs ?s)[unat (rd_rs1 0x0200) :=
                  regs ?s ! unat (rd_rs1 0x0200) - regs ?s ! unat (rs2 0x0200)]"
    by blast+
  from b3 have b4: "regs (snd (executeInstruction 0x0200 ?s)) = [3, 2, 0, 0, 0, 0, 0, 0]"
    unfolding f p by simp
  from a have a1: "regs (snd (executeInstruction 0x0A39 (program_start []))) = regs (program_start [])"
    and a2: "memory (snd (executeInstruction 0x0A39 (program_start []))) = memory (program_start [])"
    and a3: "pc (snd (executeInstruction 0x0A39 (program_start []))) = 2"
    unfolding p by blast+
  show ?thesis
    using o r b1 b2 f(1) b4 a1 a2 a3 by blast
qed

end
